theory Spec2Isabelle
  imports Complex_Main
begin

section \<open>Numbers and strings of the source language\<close>

text \<open>
  The grid, the outline and the texture mapping of \<^verbatim>\<open>src/src/App.tsx\<close> only ever
  compute with small whole numbers, which are modelled as \<^typ>\<open>int\<close>. The remainder
  operator \<^verbatim>\<open>%\<close> of the source truncates towards zero (its result has the sign of
  the dividend); \<^verbatim>\<open>Math.floor(a / b)\<close> with a positive divisor is the flooring
  division \<open>div\<close> of HOL.
\<close>

definition js_rem :: "int \<Rightarrow> int \<Rightarrow> int" where
  "js_rem a b = sgn a * (\<bar>a\<bar> mod \<bar>b\<bar>)"

definition digitChar :: "nat \<Rightarrow> char" where
  "digitChar d = ''0123456789'' ! d"

function showNat :: "nat \<Rightarrow> string" where
  "showNat n = (if n < 10 then [digitChar n] else showNat (n div 10) @ [digitChar (n mod 10)])"
  by pat_completeness auto
termination
  by (relation "measure (\<lambda>n. n)") auto

definition showInt :: "int \<Rightarrow> string" where
  "showInt i = (if i < 0 then ''-'' @ showNat (nat (- i)) else showNat (nat i))"

section \<open>The grid and its pieces\<close>

record Piece =
  piece_id :: string
  label :: string
  slot :: int

record Edges =
  top_edge :: int
  right_edge :: int
  bottom_edge :: int
  left_edge :: int

definition ROWS :: int where
  "ROWS = 4"

definition COLS :: int where
  "COLS = 4"

text \<open>
  \<^verbatim>\<open>Array.from({ length: 16 }, (_, index) => ({ id: `p${index + 1}`, label: String(index + 1), slot: index }))\<close>
\<close>

definition pieces :: "Piece list" where
  "pieces = map (\<lambda>index. \<lparr>piece_id = ''p'' @ showNat (index + 1),
                           label = showNat (index + 1),
                           slot = int index\<rparr>) [0..<16]"

definition tabRadius :: int where
  "tabRadius = 22"

section \<open>Piece outlines\<close>

text \<open>
  The source assembles the outline as the text of an SVG path. The model keeps the
  commands apart (\<open>M\<close>, \<open>L\<close>, \<open>A\<close>, \<open>Z\<close>, all absolute), and \<open>showPath\<close> writes them
  as the template strings of the source do, separated by single blanks.
\<close>

datatype cmd =
    MoveTo int int
  | LineTo int int
  | ArcTo int int int int int int int
  | ClosePath

definition arc :: "int \<Rightarrow> int \<Rightarrow> int \<Rightarrow> int \<Rightarrow> cmd" where
  "arc r sweep x y = ArcTo r r 0 0 sweep x y"

definition edgePathTop :: "int \<Rightarrow> cmd list" where
  "edgePathTop edge =
     (if edge = 0 then [LineTo 100 0]
      else let r = tabRadius; sweep = (if edge = 1 then 1 else 0)
           in [LineTo (50 - r) 0, arc r sweep (50 + r) 0, LineTo 100 0])"

definition edgePathRight :: "int \<Rightarrow> cmd list" where
  "edgePathRight edge =
     (if edge = 0 then [LineTo 100 100]
      else let r = tabRadius; sweep = (if edge = 1 then 0 else 1)
           in [LineTo 100 (50 - r), arc r sweep 100 (50 + r), LineTo 100 100])"

definition edgePathBottom :: "int \<Rightarrow> cmd list" where
  "edgePathBottom edge =
     (if edge = 0 then [LineTo 0 100]
      else let r = tabRadius; sweep = (if edge = 1 then 1 else 0)
           in [LineTo (50 + r) 100, arc r sweep (50 - r) 100, LineTo 0 100])"

definition edgePathLeft :: "int \<Rightarrow> cmd list" where
  "edgePathLeft edge =
     (if edge = 0 then [LineTo 0 0]
      else let r = tabRadius; sweep = (if edge = 1 then 0 else 1)
           in [LineTo 0 (50 + r), arc r sweep 0 (50 - r), LineTo 0 0])"

definition buildPiecePath :: "Edges \<Rightarrow> cmd list" where
  "buildPiecePath edges =
     [MoveTo 0 0] @ edgePathTop (top_edge edges) @ edgePathRight (right_edge edges)
       @ edgePathBottom (bottom_edge edges) @ edgePathLeft (left_edge edges) @ [ClosePath]"

fun showCmd :: "cmd \<Rightarrow> string" where
  "showCmd (MoveTo x y) = ''M '' @ showInt x @ '' '' @ showInt y"
| "showCmd (LineTo x y) = ''L '' @ showInt x @ '' '' @ showInt y"
| "showCmd (ArcTo rx ry rot large sweep x y) =
     ''A '' @ showInt rx @ '' '' @ showInt ry @ '' '' @ showInt rot @ '' '' @ showInt large
       @ '' '' @ showInt sweep @ '' '' @ showInt x @ '' '' @ showInt y"
| "showCmd ClosePath = ''Z''"

fun showPath :: "cmd list \<Rightarrow> string" where
  "showPath [] = []"
| "showPath [c] = showCmd c"
| "showPath (c # cs) = showCmd c @ '' '' @ showPath cs"

subsection \<open>Reading a path\<close>

text \<open>
  The pen of an SVG path: \<open>M\<close> opens a subpath at its target, \<open>L\<close> and \<open>A\<close> move the pen
  to their target, \<open>Z\<close> returns it to the start of the subpath. \<open>walk start cur cs\<close> is
  the pen position after the commands \<open>cs\<close>.
\<close>

type_synonym point = "int \<times> int"

fun walk :: "point \<Rightarrow> point \<Rightarrow> cmd list \<Rightarrow> point" where
  "walk start cur [] = cur"
| "walk start cur (MoveTo x y # cs) = walk (x, y) (x, y) cs"
| "walk start cur (LineTo x y # cs) = walk start (x, y) cs"
| "walk start cur (ArcTo rx ry rot large sweep x y # cs) = walk start (x, y) cs"
| "walk start cur (ClosePath # cs) = walk start start cs"

definition startPoint :: "cmd list \<Rightarrow> point option" where
  "startPoint path = (case path of MoveTo x y # cs \<Rightarrow> Some (x, y) | _ \<Rightarrow> None)"

definition endPoint :: "cmd list \<Rightarrow> point option" where
  "endPoint path = (case path of MoveTo x y # cs \<Rightarrow> Some (walk (x, y) (x, y) cs) | _ \<Rightarrow> None)"

text \<open>
  The arcs of the source join two points whose distance is twice the radius, with the
  large-arc flag 0: each is a half circle whose centre is the midpoint of the chord. By
  the SVG path rules a sweep flag of 1 draws the arc in the direction of increasing
  angle of \<open>(cx + r cos t, cy + r sin t)\<close>, so its middle point is the start point
  turned a quarter about the centre, \<open>(dx, dy)\<close> to \<open>(- dy, dx)\<close>; a sweep flag of 0
  turns the other way. \<open>arcApex\<close> is that middle point, and is undefined for an arc
  that is not such a half circle. These rules are those of the SVG format, which the
  repository only writes; nothing in the source states them.
\<close>

definition arcApex :: "point \<Rightarrow> int \<Rightarrow> int \<Rightarrow> point \<Rightarrow> point option" where
  "arcApex p r sweep q =
     (let x1 = fst p; y1 = snd p; x2 = fst q; y2 = snd q
      in if (x2 - x1)\<^sup>2 + (y2 - y1)\<^sup>2 = (2 * r)\<^sup>2 \<and> even (x1 + x2) \<and> even (y1 + y2)
         then let cx = (x1 + x2) div 2; cy = (y1 + y2) div 2; dx = x1 - cx; dy = y1 - cy
              in Some (if sweep = 1 then (cx - dy, cy + dx) else (cx + dy, cy - dx))
         else None)"

fun apexes :: "point \<Rightarrow> point \<Rightarrow> cmd list \<Rightarrow> point option list" where
  "apexes start cur [] = []"
| "apexes start cur (MoveTo x y # cs) = apexes (x, y) (x, y) cs"
| "apexes start cur (LineTo x y # cs) = apexes start (x, y) cs"
| "apexes start cur (ArcTo rx ry rot large sweep x y # cs) =
     (if rx = ry \<and> large = 0 then arcApex cur rx sweep (x, y) else None) # apexes start (x, y) cs"
| "apexes start cur (ClosePath # cs) = apexes start start cs"

definition pathApexes :: "cmd list \<Rightarrow> point option list" where
  "pathApexes path = apexes (0, 0) (0, 0) path"

definition insideSquare :: "point \<Rightarrow> bool" where
  "insideSquare p = (0 < fst p \<and> fst p < 100 \<and> 0 < snd p \<and> snd p < 100)"

definition outsideSquare :: "point \<Rightarrow> bool" where
  "outsideSquare p = (fst p < 0 \<or> 100 < fst p \<or> snd p < 0 \<or> 100 < snd p)"

section \<open>Texture mapping\<close>

record Coords =
  row :: int
  col :: int

definition getPieceCoords :: "int \<Rightarrow> Coords" where
  "getPieceCoords s = \<lparr>row = s div COLS, col = js_rem s COLS\<rparr>"

record Pattern =
  pattern_id :: string
  pattern_width :: int
  pattern_height :: int
  pattern_x :: int
  pattern_y :: int

definition imagePattern :: "Piece \<Rightarrow> Pattern" where
  "imagePattern piece =
     (let c = getPieceCoords (slot piece); imageSize = 100 * COLS
      in \<lparr>pattern_id = ''img-'' @ piece_id piece,
          pattern_width = imageSize,
          pattern_height = imageSize,
          pattern_x = - col c * 100,
          pattern_y = - row c * 100\<rparr>)"

section \<open>Edge codes\<close>

text \<open>
  An edge code is 0 for a flat border, 1 for a tab and -1 for a blank.
\<close>

definition tab :: "int \<Rightarrow> int \<Rightarrow> int" where
  "tab r c = (if js_rem (r + c) 2 = 0 then 1 else - 1)"

definition getEdges :: "int \<Rightarrow> int \<Rightarrow> Edges" where
  "getEdges r c =
     \<lparr>top_edge = (if r = 0 then 0 else tab (r - 1) c),
      right_edge = (if c = COLS - 1 then 0 else tab r c),
      bottom_edge = (if r = ROWS - 1 then 0 else - tab r c),
      left_edge = (if c = 0 then 0 else - tab r (c - 1))\<rparr>"

section \<open>Placement state\<close>

text \<open>
  \<^verbatim>\<open>Object.fromEntries\<close>: an object built from a list of key and value pairs, a later
  pair replacing an earlier one with the same key. An object is read as a map from
  property names to values; a name that is not a key of the object has no value there.
\<close>

definition fromEntries :: "('k \<times> 'v) list \<Rightarrow> ('k \<rightharpoonup> 'v)" where
  "fromEntries kvs = foldl (\<lambda>m kv. m(fst kv \<mapsto> snd kv)) Map.empty kvs"

definition piecesById :: "string \<rightharpoonup> Piece" where
  "piecesById = fromEntries (map (\<lambda>piece. (piece_id piece, piece)) pieces)"

definition initialPlaced :: "string \<rightharpoonup> bool" where
  "initialPlaced = fromEntries (map (\<lambda>piece. (piece_id piece, False)) pieces)"

definition isComplete :: "(string \<rightharpoonup> bool) \<Rightarrow> bool" where
  "isComplete placed = (\<forall>v \<in> ran placed. v)"

text \<open>
  \<open>handleDrop placed pid slotIndex\<close> is the \<open>placed\<close> state after a drop of the piece id
  \<open>pid\<close> (the text carried by the drag) on the slot \<open>slotIndex\<close>. The state update of
  the source, \<^verbatim>\<open>setPlaced((current) => ({ ...current, [id]: true }))\<close>, is applied at
  once to the state the handler has read. An id that is the name of a property every
  object inherits (\<open>constructor\<close>, \<open>toString\<close>) reads a value that is not \<open>false\<close>
  from \<open>placed\<close> in the source and is rejected by the first test; here it has no
  value in \<open>placed\<close> and is rejected as an id of no piece, with the same state.
\<close>

definition handleDrop :: "(string \<rightharpoonup> bool) \<Rightarrow> string \<Rightarrow> int \<Rightarrow> (string \<rightharpoonup> bool)" where
  "handleDrop placed pid slotIndex =
     (if pid = [] \<or> placed pid = Some True then placed
      else case piecesById pid of
             None \<Rightarrow> placed
           | Some piece \<Rightarrow>
               if slot piece \<noteq> slotIndex then placed else placed(pid \<mapsto> True))"

section \<open>Scattering the pieces\<close>

text \<open>
  The scatter computes with the floating-point numbers of the source language. The
  model leaves them open: \<open>'n\<close> is the type of the numbers, and a record of type
  \<open>'n arith\<close> holds the operations the source applies to them, \<^verbatim>\<open>+\<close>, \<^verbatim>\<open>-\<close>,
  \<^verbatim>\<open>*\<close>, \<^verbatim>\<open>/\<close>, \<^verbatim>\<open>Math.hypot\<close>, \<^verbatim>\<open><=\<close> and \<^verbatim>\<open>>=\<close>, and the number that
  each numeric literal stands for. Every function of the scatter takes such a record
  \<open>fl\<close> and nothing is assumed about it, so a property proved for every \<open>fl\<close> holds of
  the arithmetic of the source with its rounding, its infinities and its
  not-a-number. The operations are applied in the order in which the source applies
  them. \<open>exact\<close> is the arithmetic of the real numbers, without rounding; it is
  not the arithmetic of the source, and serves for the examples and for the
  statements that name it.

  \<^verbatim>\<open>Math.random()\<close> is a stream \<open>rnd\<close> of numbers, the call number \<open>k\<close> of one run of
  \<open>generateScatter\<close> returning \<open>rnd k\<close>; the functions below pass on the number of
  calls made so far. \<open>Rect\<close> is the bounding rectangle of the stage element and
  \<open>Window\<close> the inner size of the window.
\<close>

record 'n arith =
  fadd :: "'n \<Rightarrow> 'n \<Rightarrow> 'n"
  fsub :: "'n \<Rightarrow> 'n \<Rightarrow> 'n"
  fmul :: "'n \<Rightarrow> 'n \<Rightarrow> 'n"
  fdiv :: "'n \<Rightarrow> 'n \<Rightarrow> 'n"
  fhypot :: "'n \<Rightarrow> 'n \<Rightarrow> 'n"
  fle :: "'n \<Rightarrow> 'n \<Rightarrow> bool"
  fge :: "'n \<Rightarrow> 'n \<Rightarrow> bool"
  num :: "real \<Rightarrow> 'n"

definition hypot :: "real \<Rightarrow> real \<Rightarrow> real" where
  "hypot dx dy = sqrt (dx\<^sup>2 + dy\<^sup>2)"

definition exact :: "real arith" where
  "exact = \<lparr>fadd = (+), fsub = (-), fmul = (*), fdiv = (/), fhypot = hypot,
            fle = (\<le>), fge = (\<ge>), num = (\<lambda>x. x)\<rparr>"

record 'n Rect =
  rect_left :: 'n
  rect_top :: 'n
  rect_width :: 'n
  rect_height :: 'n

record 'n Window =
  innerWidth :: 'n
  innerHeight :: 'n

record 'n Position =
  pos_x :: 'n
  pos_y :: 'n
  pos_tilt :: 'n

record 'n ScatterEntry =
  entry_start :: "'n \<times> 'n"
  entry_tilt :: 'n

datatype error = TypeError

definition svgScale :: "'n arith \<Rightarrow> 'n" where
  "svgScale fl =
     fdiv fl (fadd fl (num fl 100) (fmul fl (num fl (real_of_int tabRadius)) (num fl 2)))
       (num fl 100)"

definition centerX :: "'n arith \<Rightarrow> 'n Rect \<Rightarrow> 'n" where
  "centerX fl rect = fadd fl (rect_left rect) (fdiv fl (rect_width rect) (num fl 2))"

definition centerY :: "'n arith \<Rightarrow> 'n Rect \<Rightarrow> 'n" where
  "centerY fl rect = fadd fl (rect_top rect) (fdiv fl (rect_height rect) (num fl 2))"

definition pieceSize :: "'n arith \<Rightarrow> 'n Window \<Rightarrow> 'n" where
  "pieceSize fl w = (if fle fl (innerWidth w) (num fl 700) then num fl 86 else num fl 96)"

definition pieceVisualSize :: "'n arith \<Rightarrow> 'n Window \<Rightarrow> 'n" where
  "pieceVisualSize fl w = fmul fl (pieceSize fl w) (svgScale fl)"

definition minDistance :: "'n arith \<Rightarrow> 'n Window \<Rightarrow> 'n" where
  "minDistance fl w = fmul fl (pieceVisualSize fl w) (num fl (11 / 10))"

definition padding :: "'n arith \<Rightarrow> 'n" where
  "padding fl = num fl 48"

definition minX :: "'n arith \<Rightarrow> 'n Window \<Rightarrow> 'n Rect \<Rightarrow> 'n" where
  "minX fl w rect =
     fsub fl (fadd fl (padding fl) (fdiv fl (pieceVisualSize fl w) (num fl 2))) (centerX fl rect)"

definition maxX :: "'n arith \<Rightarrow> 'n Window \<Rightarrow> 'n Rect \<Rightarrow> 'n" where
  "maxX fl w rect =
     fsub fl (fsub fl (fsub fl (innerWidth w) (padding fl))
                     (fdiv fl (pieceVisualSize fl w) (num fl 2)))
       (centerX fl rect)"

definition minY :: "'n arith \<Rightarrow> 'n Window \<Rightarrow> 'n Rect \<Rightarrow> 'n" where
  "minY fl w rect =
     fsub fl (fadd fl (padding fl) (fdiv fl (pieceVisualSize fl w) (num fl 2))) (centerY fl rect)"

definition maxY :: "'n arith \<Rightarrow> 'n Window \<Rightarrow> 'n Rect \<Rightarrow> 'n" where
  "maxY fl w rect =
     fsub fl (fsub fl (fsub fl (innerHeight w) (padding fl))
                     (fdiv fl (pieceVisualSize fl w) (num fl 2)))
       (centerY fl rect)"

definition safeMinX :: "'n arith \<Rightarrow> 'n Window \<Rightarrow> 'n Rect \<Rightarrow> 'n" where
  "safeMinX fl w rect =
     (if fle fl (minX fl w rect) (maxX fl w rect) then minX fl w rect
      else fdiv fl (fadd fl (minX fl w rect) (maxX fl w rect)) (num fl 2))"

definition safeMaxX :: "'n arith \<Rightarrow> 'n Window \<Rightarrow> 'n Rect \<Rightarrow> 'n" where
  "safeMaxX fl w rect =
     (if fle fl (minX fl w rect) (maxX fl w rect) then maxX fl w rect
      else fdiv fl (fadd fl (minX fl w rect) (maxX fl w rect)) (num fl 2))"

definition safeMinY :: "'n arith \<Rightarrow> 'n Window \<Rightarrow> 'n Rect \<Rightarrow> 'n" where
  "safeMinY fl w rect =
     (if fle fl (minY fl w rect) (maxY fl w rect) then minY fl w rect
      else fdiv fl (fadd fl (minY fl w rect) (maxY fl w rect)) (num fl 2))"

definition safeMaxY :: "'n arith \<Rightarrow> 'n Window \<Rightarrow> 'n Rect \<Rightarrow> 'n" where
  "safeMaxY fl w rect =
     (if fle fl (minY fl w rect) (maxY fl w rect) then maxY fl w rect
      else fdiv fl (fadd fl (minY fl w rect) (maxY fl w rect)) (num fl 2))"

definition rand :: "'n arith \<Rightarrow> (nat \<Rightarrow> 'n) \<Rightarrow> nat \<Rightarrow> 'n \<Rightarrow> 'n \<Rightarrow> 'n" where
  "rand fl rnd k lo hi = fadd fl lo (fmul fl (rnd k) (fsub fl hi lo))"

definition maxAttempts :: nat where
  "maxAttempts = 600"

text \<open>
  The candidate sampled when \<open>k\<close> random numbers have been used: \<open>x\<close>, then \<open>y\<close>, then
  the tilt, in the order of the object literal.
\<close>

definition candidate ::
  "'n arith \<Rightarrow> (nat \<Rightarrow> 'n) \<Rightarrow> 'n Window \<Rightarrow> 'n Rect \<Rightarrow> nat \<Rightarrow> 'n Position"
where
  "candidate fl rnd w rect k =
     \<lparr>pos_x = rand fl rnd k (safeMinX fl w rect) (safeMaxX fl w rect),
      pos_y = rand fl rnd (k + 1) (safeMinY fl w rect) (safeMaxY fl w rect),
      pos_tilt = rand fl rnd (k + 2) (num fl (- 14)) (num fl 14)\<rparr>"

definition clear :: "'n arith \<Rightarrow> 'n Window \<Rightarrow> 'n Position list \<Rightarrow> 'n Position \<Rightarrow> bool" where
  "clear fl w positions c =
     list_all (\<lambda>pos. let dx = fsub fl (pos_x pos) (pos_x c); dy = fsub fl (pos_y pos) (pos_y c)
                     in fge fl (fhypot fl dx dy) (minDistance fl w)) positions"

text \<open>
  The loop over the attempts of one piece, from attempt number \<open>attempt\<close> on. The
  result is the flag \<open>placed\<close> of the source, the positions and the number of random
  numbers used.
\<close>

function attemptLoop ::
  "'n arith \<Rightarrow> (nat \<Rightarrow> 'n) \<Rightarrow> 'n Window \<Rightarrow> 'n Rect \<Rightarrow> 'n Position list \<Rightarrow> nat \<Rightarrow> nat
     \<Rightarrow> bool \<times> 'n Position list \<times> nat"
where
  "attemptLoop fl rnd w rect positions attempt k =
     (if attempt < maxAttempts
      then let c = candidate fl rnd w rect k
           in if clear fl w positions c then (True, positions @ [c], k + 3)
              else attemptLoop fl rnd w rect positions (attempt + 1) (k + 3)
      else (False, positions, k))"
  by pat_completeness auto
termination
  by (relation "measure (\<lambda>(fl, rnd, w, rect, positions, attempt, k). maxAttempts - attempt)")
    auto

declare attemptLoop.simps [simp del]

text \<open>The body of \<^verbatim>\<open>pieces.forEach\<close>: the attempts, then the push without a test.\<close>

definition placePiece ::
  "'n arith \<Rightarrow> (nat \<Rightarrow> 'n) \<Rightarrow> 'n Window \<Rightarrow> 'n Rect \<Rightarrow> 'n Position list \<times> nat
     \<Rightarrow> 'n Position list \<times> nat"
where
  "placePiece fl rnd w rect s =
     (case attemptLoop fl rnd w rect (fst s) 0 (snd s) of
        (placed, positions, k) \<Rightarrow>
          if \<not> placed then (positions @ [candidate fl rnd w rect k], k + 3)
          else (positions, k))"

definition scatterPositions ::
  "'n arith \<Rightarrow> (nat \<Rightarrow> 'n) \<Rightarrow> 'n Window \<Rightarrow> 'n Rect \<Rightarrow> 'n Position list"
where
  "scatterPositions fl rnd w rect =
     fst (fold (\<lambda>piece. placePiece fl rnd w rect) pieces ([], 0))"

definition initialScatter :: "'n arith \<Rightarrow> (string \<rightharpoonup> 'n ScatterEntry)" where
  "initialScatter fl =
     fromEntries (map (\<lambda>piece. (piece_id piece,
                                 \<lparr>entry_start = (num fl 0, num fl 0), entry_tilt = num fl 0\<rparr>))
                      pieces)"

text \<open>
  \<open>generateScatter fl rnd w stage scatter\<close> is the \<open>scatter\<close> state after one run.
  Without a stage element the run returns at once and the state stays as it was.
  Reading \<^verbatim>\<open>positions[index].x\<close> beyond the end of \<open>positions\<close> would throw a
  \<open>TypeError\<close>.
\<close>

definition generateScatter ::
  "'n arith \<Rightarrow> (nat \<Rightarrow> 'n) \<Rightarrow> 'n Window \<Rightarrow> 'n Rect option \<Rightarrow> (string \<rightharpoonup> 'n ScatterEntry)
     \<Rightarrow> error + (string \<rightharpoonup> 'n ScatterEntry)"
where
  "generateScatter fl rnd w stage scatter =
     (case stage of
        None \<Rightarrow> Inr scatter
      | Some rect \<Rightarrow>
          let positions = scatterPositions fl rnd w rect
          in if length pieces \<le> length positions
             then Inr (fromEntries
                    (map (\<lambda>(piece, index).
                            (piece_id piece,
                             \<lparr>entry_start = (pos_x (positions ! index), pos_y (positions ! index)),
                              entry_tilt = pos_tilt (positions ! index)\<rparr>))
                         (zip pieces [0..<length pieces])))
             else Inl TypeError)"

subsection \<open>The course of a run\<close>

text \<open>
  \<open>stateAfter fl rnd w rect n\<close> is the state of the loop over the pieces when the
  first \<open>n\<close> pieces are done: the positions pushed and the number of random numbers
  used. \<open>placedWithin fl rnd w rect n\<close> is the flag \<open>placed\<close> of the piece with index
  \<open>n\<close> at the end of its attempts, and \<open>withinBudget\<close> says that the flag is set for
  every piece of the run.
\<close>

definition stateAfter ::
  "'n arith \<Rightarrow> (nat \<Rightarrow> 'n) \<Rightarrow> 'n Window \<Rightarrow> 'n Rect \<Rightarrow> nat \<Rightarrow> 'n Position list \<times> nat"
where
  "stateAfter fl rnd w rect n =
     fold (\<lambda>piece. placePiece fl rnd w rect) (take n pieces) ([], 0)"

definition placedWithin ::
  "'n arith \<Rightarrow> (nat \<Rightarrow> 'n) \<Rightarrow> 'n Window \<Rightarrow> 'n Rect \<Rightarrow> nat \<Rightarrow> bool"
where
  "placedWithin fl rnd w rect n =
     fst (attemptLoop fl rnd w rect (fst (stateAfter fl rnd w rect n)) 0
            (snd (stateAfter fl rnd w rect n)))"



subsection \<open>Sample runs\<close>


definition retryStream :: "nat \<Rightarrow> real" where
  "retryStream k = (if k = 6 then 1 / 2 else 0)"

definition rampStream :: "nat \<Rightarrow> real" where
  "rampStream k = real (k mod 30000) / 30000"

definition wideWindow :: "real Window" where
  "wideWindow = \<lparr>innerWidth = 4000, innerHeight = 1000\<rparr>"

definition wideStage :: "real Rect" where
  "wideStage = \<lparr>rect_left = 0, rect_top = 0, rect_width = 4000, rect_height = 1000\<rparr>"

definition tinyWindow :: "real Window" where
  "tinyWindow = \<lparr>innerWidth = 100, innerHeight = 100\<rparr>"

definition tinyStage :: "real Rect" where
  "tinyStage = \<lparr>rect_left = 10, rect_top = 0, rect_width = 100, rect_height = 100\<rparr>"

section \<open>Properties of the grid\<close>

lemma js_rem_nonneg: "0 \<le> a \<Longrightarrow> 0 < b \<Longrightarrow> js_rem a b = a mod b"
  by (simp add: js_rem_def sgn_if)

lemma tab_cases: "tab r c = 1 \<or> tab r c = - 1"
  by (simp add: tab_def)

text \<open>
  C1. In the 4 by 4 grid of the source, the right edge code of a cell and the left edge
  code of its right neighbour are complementary: one is 1 (tab) and the other is -1
  (blank). The same holds for the bottom edge code of a cell and the top edge code of
  the cell below it.
\<close>

theorem getEdges_complementary:
  "(0 \<le> r \<and> r < ROWS \<and> 0 \<le> c \<and> c + 1 < COLS \<longrightarrow>
      (right_edge (getEdges r c) = 1 \<and> left_edge (getEdges r (c + 1)) = - 1) \<or>
      (right_edge (getEdges r c) = - 1 \<and> left_edge (getEdges r (c + 1)) = 1)) \<and>
   (0 \<le> r \<and> r + 1 < ROWS \<and> 0 \<le> c \<and> c < COLS \<longrightarrow>
      (bottom_edge (getEdges r c) = 1 \<and> top_edge (getEdges (r + 1) c) = - 1) \<or>
      (bottom_edge (getEdges r c) = - 1 \<and> top_edge (getEdges (r + 1) c) = 1))"
  using tab_cases [of r c] by (auto simp: getEdges_def ROWS_def COLS_def)

theorem getEdges_complementary_witness:
  "(0::int) \<le> 1 \<and> (1::int) < ROWS \<and> (0::int) \<le> 2 \<and> (2::int) + 1 < COLS \<and> (1::int) + 1 < ROWS \<and>
   (2::int) < COLS \<and>
   ((right_edge (getEdges 1 2) = 1 \<and> left_edge (getEdges 1 (2 + 1)) = - 1) \<or>
    (right_edge (getEdges 1 2) = - 1 \<and> left_edge (getEdges 1 (2 + 1)) = 1)) \<and>
   ((bottom_edge (getEdges 1 2) = 1 \<and> top_edge (getEdges (1 + 1) 2) = - 1) \<or>
    (bottom_edge (getEdges 1 2) = - 1 \<and> top_edge (getEdges (1 + 1) 2) = 1))"
  using getEdges_complementary [of 1 2] by (simp add: ROWS_def COLS_def)

text \<open>
  C4. For every cell of the grid, \<open>0 \<le> r < ROWS\<close> and \<open>0 \<le> c < COLS\<close>, an edge on the
  border of the grid has code 0 (flat): the top edge in row 0, the bottom edge in the
  last row, the left edge in column 0, the right edge in the last column. Every other
  edge of the cell has code 1 or -1, never 0.
\<close>

theorem getEdges_flat_iff_boundary:
  assumes "0 \<le> r" and "r < ROWS" and "0 \<le> c" and "c < COLS"
  shows "(r = 0 \<longrightarrow> top_edge (getEdges r c) = 0) \<and>
         (r = ROWS - 1 \<longrightarrow> bottom_edge (getEdges r c) = 0) \<and>
         (c = 0 \<longrightarrow> left_edge (getEdges r c) = 0) \<and>
         (c = COLS - 1 \<longrightarrow> right_edge (getEdges r c) = 0) \<and>
         (r \<noteq> 0 \<longrightarrow> top_edge (getEdges r c) = 1 \<or> top_edge (getEdges r c) = - 1) \<and>
         (r \<noteq> ROWS - 1 \<longrightarrow>
            bottom_edge (getEdges r c) = 1 \<or> bottom_edge (getEdges r c) = - 1) \<and>
         (c \<noteq> 0 \<longrightarrow> left_edge (getEdges r c) = 1 \<or> left_edge (getEdges r c) = - 1) \<and>
         (c \<noteq> COLS - 1 \<longrightarrow>
            right_edge (getEdges r c) = 1 \<or> right_edge (getEdges r c) = - 1)"
  using tab_cases [of "r - 1" c] tab_cases [of r c] tab_cases [of r "c - 1"]
  by (auto simp: getEdges_def)

theorem getEdges_flat_iff_boundary_witness:
  "(0::int) \<le> 0 \<and> (0::int) < ROWS \<and> (0::int) \<le> 3 \<and> (3::int) < COLS \<and> (3::int) = COLS - 1 \<and>
   top_edge (getEdges 0 3) = 0 \<and> right_edge (getEdges 0 3) = 0 \<and>
   (bottom_edge (getEdges 0 3) = 1 \<or> bottom_edge (getEdges 0 3) = - 1) \<and>
   (left_edge (getEdges 0 3) = 1 \<or> left_edge (getEdges 0 3) = - 1)"
  using getEdges_flat_iff_boundary [of 0 3] by (simp add: ROWS_def COLS_def)

section \<open>Properties of the texture mapping\<close>

text \<open>
  C6. For every slot with \<open>0 \<le> s < ROWS * COLS\<close>, with \<open>row = s div COLS\<close> (the floor
  of the quotient) and \<open>col = s mod COLS\<close>, the pattern of a piece whose slot is \<open>s\<close>
  has its origin at \<open>(- col * 100, - row * 100)\<close> and a width and a height of
  \<open>100 * COLS\<close>. (The source computes \<open>- col * 100\<close> in floating point, where column 0
  gives a negative zero; it is equal to 0 and is the integer 0 here.)
\<close>

theorem imagePattern_origin_size:
  assumes "0 \<le> s" and "s < ROWS * COLS" and "slot piece = s"
  shows "pattern_x (imagePattern piece) = - (s mod COLS) * 100 \<and>
         pattern_y (imagePattern piece) = - (s div COLS) * 100 \<and>
         pattern_width (imagePattern piece) = 100 * COLS \<and>
         pattern_height (imagePattern piece) = 100 * COLS"
  using assms
  by (simp add: imagePattern_def getPieceCoords_def Let_def js_rem_nonneg COLS_def)

theorem imagePattern_origin_size_witness:
  "(0::int) \<le> 6 \<and> (6::int) < ROWS * COLS \<and>
   slot \<lparr>piece_id = ''p7'', label = ''7'', slot = 6\<rparr> = 6 \<and>
   pattern_x (imagePattern \<lparr>piece_id = ''p7'', label = ''7'', slot = 6\<rparr>) = - 200 \<and>
   pattern_y (imagePattern \<lparr>piece_id = ''p7'', label = ''7'', slot = 6\<rparr>) = - 100 \<and>
   pattern_width (imagePattern \<lparr>piece_id = ''p7'', label = ''7'', slot = 6\<rparr>) = 400 \<and>
   pattern_height (imagePattern \<lparr>piece_id = ''p7'', label = ''7'', slot = 6\<rparr>) = 400"
  using imagePattern_origin_size [of 6 "\<lparr>piece_id = ''p7'', label = ''7'', slot = 6\<rparr>"]
  by (simp add: ROWS_def COLS_def)

section \<open>Properties of the outline\<close>

lemma showPath_example:
  "showPath (buildPiecePath (getEdges 0 3)) =
     ''M 0 0 L 100 0 L 100 100 L 72 100 A 22 22 0 0 1 28 100 L 0 100 L 0 72 A 22 22 0 0 1 0 28 L 0 0 Z''"
  by code_simp

lemma walk_top: "walk s (0, 0) (edgePathTop e @ cs) = walk s (100, 0) cs"
  by (simp add: edgePathTop_def arc_def)

lemma walk_right: "walk s (100, 0) (edgePathRight e @ cs) = walk s (100, 100) cs"
  by (simp add: edgePathRight_def arc_def)

lemma walk_bottom: "walk s (100, 100) (edgePathBottom e @ cs) = walk s (0, 100) cs"
  by (simp add: edgePathBottom_def arc_def)

lemma walk_left: "walk s (0, 100) (edgePathLeft e @ cs) = walk s (0, 0) cs"
  by (simp add: edgePathLeft_def arc_def)

lemma apexes_top:
  "apexes s (0, 0) (edgePathTop e @ cs) =
     (if e = 0 then [] else [Some (50, if e = 1 then - 22 else 22)]) @ apexes s (100, 0) cs"
  by (simp add: edgePathTop_def arc_def tabRadius_def arcApex_def)

lemma apexes_right:
  "apexes s (100, 0) (edgePathRight e @ cs) =
     (if e = 0 then [] else [Some (if e = 1 then 78 else 122, 50)]) @ apexes s (100, 100) cs"
  by (simp add: edgePathRight_def arc_def tabRadius_def arcApex_def)

lemma apexes_bottom:
  "apexes s (100, 100) (edgePathBottom e @ cs) =
     (if e = 0 then [] else [Some (50, if e = 1 then 122 else 78)]) @ apexes s (0, 100) cs"
  by (simp add: edgePathBottom_def arc_def tabRadius_def arcApex_def)

lemma apexes_left:
  "apexes s (0, 100) (edgePathLeft e @ cs) =
     (if e = 0 then [] else [Some (if e = 1 then 22 else - 22, 50)]) @ apexes s (0, 0) cs"
  by (simp add: edgePathLeft_def arc_def tabRadius_def arcApex_def)

text \<open>
  Two neighbours share one arc. Where the edge code of a cell is \<open>e\<close>, the code of the
  neighbour on the same edge is \<open>- e\<close>; the middle point of the arc of the cell and the
  middle point of the arc of the neighbour, moved by the 100 units between the two
  cells, are the same point.
\<close>

lemma arcs_interlock_horizontal:
  assumes "e = 1 \<or> e = - 1"
  shows "map (map_option (\<lambda>p. (fst p + 100, snd p))) (apexes s (0, 100) (edgePathLeft (- e))) =
         apexes s' (100, 0) (edgePathRight e)"
  using assms by (auto simp: edgePathLeft_def edgePathRight_def arc_def tabRadius_def arcApex_def)

lemma arcs_interlock_vertical:
  assumes "e = 1 \<or> e = - 1"
  shows "map (map_option (\<lambda>p. (fst p, snd p + 100))) (apexes s (0, 0) (edgePathTop (- e))) =
         apexes s' (100, 100) (edgePathBottom e)"
  using assms by (auto simp: edgePathTop_def edgePathBottom_def arc_def tabRadius_def arcApex_def)

text \<open>
  C5. For every edge set the outline is a closed path: it starts at \<open>(0, 0)\<close>, its last
  drawing command brings the pen back to \<open>(0, 0)\<close>, and it ends with the command that
  closes the path, so that it ends where it starts. This holds for all edge codes, in
  particular for the valid ones 0, 1 and -1.
\<close>

theorem buildPiecePath_closed:
  "startPoint (buildPiecePath e) = Some (0, 0) \<and>
   endPoint (butlast (buildPiecePath e)) = Some (0, 0) \<and>
   last (buildPiecePath e) = ClosePath \<and>
   endPoint (buildPiecePath e) = Some (0, 0)"
proof -
  let ?body = "edgePathTop (top_edge e) @ edgePathRight (right_edge e)
       @ edgePathBottom (bottom_edge e) @ edgePathLeft (left_edge e) @ []"
  have b: "butlast (buildPiecePath e) = MoveTo 0 0 # ?body"
    by (simp add: buildPiecePath_def butlast_append)
  have w: "walk (0, 0) (0, 0) ?body = (0, 0)"
    by (simp only: walk_top walk_right walk_bottom walk_left walk.simps)
  have w2: "walk (0, 0) (0, 0) (edgePathTop (top_edge e) @ edgePathRight (right_edge e)
       @ edgePathBottom (bottom_edge e) @ edgePathLeft (left_edge e) @ [ClosePath]) = (0, 0)"
    by (simp only: walk_top walk_right walk_bottom walk_left walk.simps)
  show ?thesis
    using w w2 by (simp add: b startPoint_def endPoint_def) (simp add: buildPiecePath_def)
qed

theorem buildPiecePath_closed_witness:
  "startPoint (buildPiecePath (getEdges 1 2)) = Some (0, 0) \<and>
   endPoint (butlast (buildPiecePath (getEdges 1 2))) = Some (0, 0) \<and>
   last (buildPiecePath (getEdges 1 2)) = ClosePath \<and>
   endPoint (buildPiecePath (getEdges 1 2)) = Some (0, 0)"
  using buildPiecePath_closed [of "getEdges 1 2"] by simp

text \<open>
  C3, as the specification states it, says that on each of the four edges the arc of a
  tab (code 1) passes through a point outside the unit square and the arc of a blank
  (code -1) through a point inside it. The source does so on the top and the bottom
  edge only. A piece whose right edge is a tab and whose other edges are flat has one
  arc, and its middle point \<open>(78, 50)\<close> lies inside the square.
\<close>

theorem buildPiecePath_tab_outward_counterexample:
  "pathApexes (buildPiecePath \<lparr>top_edge = 0, right_edge = 1, bottom_edge = 0, left_edge = 0\<rparr>)
     = [Some (78, 50)] \<and>
   insideSquare (78, 50) \<and> \<not> outsideSquare (78, 50)"
  by (simp add: pathApexes_def buildPiecePath_def edgePathTop_def edgePathRight_def
      edgePathBottom_def edgePathLeft_def arc_def tabRadius_def arcApex_def
      insideSquare_def outsideSquare_def)

text \<open>
  C3, amended. The outline has one arc for each edge that is not flat, in the order
  top, right, bottom, left. On the top and the bottom edge the arc of code 1 passes
  through a point outside the unit square, \<open>(50, -22)\<close> and \<open>(50, 122)\<close>, and the arc of
  any other code that is not 0 through a point inside it, \<open>(50, 22)\<close> and \<open>(50, 78)\<close>.
  On the right and the left edge the sense is the opposite one: the arc of code 1
  passes through a point inside the square, \<open>(78, 50)\<close> and \<open>(22, 50)\<close>, and the arc of
  any other code that is not 0 through a point outside it, \<open>(122, 50)\<close> and
  \<open>(-22, 50)\<close>.
\<close>

theorem buildPiecePath_arc_sides:
  "pathApexes (buildPiecePath e) =
     (if top_edge e = 0 then [] else [Some (50, if top_edge e = 1 then - 22 else 22)]) @
     (if right_edge e = 0 then [] else [Some (if right_edge e = 1 then 78 else 122, 50)]) @
     (if bottom_edge e = 0 then [] else [Some (50, if bottom_edge e = 1 then 122 else 78)]) @
     (if left_edge e = 0 then [] else [Some (if left_edge e = 1 then 22 else - 22, 50)]) \<and>
   outsideSquare (50, - 22) \<and> insideSquare (50, 22) \<and>
   insideSquare (78, 50) \<and> outsideSquare (122, 50) \<and>
   outsideSquare (50, 122) \<and> insideSquare (50, 78) \<and>
   insideSquare (22, 50) \<and> outsideSquare (- 22, 50)"
proof -
  have "pathApexes (buildPiecePath e) =
     (if top_edge e = 0 then [] else [Some (50, if top_edge e = 1 then - 22 else 22)]) @
     (if right_edge e = 0 then [] else [Some (if right_edge e = 1 then 78 else 122, 50)]) @
     (if bottom_edge e = 0 then [] else [Some (50, if bottom_edge e = 1 then 122 else 78)]) @
     (if left_edge e = 0 then [] else [Some (if left_edge e = 1 then 22 else - 22, 50)])"
    unfolding pathApexes_def buildPiecePath_def
    by (simp only: append_Cons append_Nil apexes.simps apexes_top apexes_right
        apexes_bottom apexes_left append_Nil2)
  then show ?thesis
    by (simp add: insideSquare_def outsideSquare_def)
qed

theorem buildPiecePath_arc_sides_witness:
  "pathApexes (buildPiecePath \<lparr>top_edge = 1, right_edge = - 1, bottom_edge = 1, left_edge = - 1\<rparr>)
     = [Some (50, - 22), Some (122, 50), Some (50, 122), Some (- 22, 50)]"
  using buildPiecePath_arc_sides
    [of "\<lparr>top_edge = 1, right_edge = - 1, bottom_edge = 1, left_edge = - 1\<rparr>"]
  by simp

section \<open>Properties of the placement state\<close>

lemma pieces_eq:
  "pieces =
    [\<lparr>piece_id = ''p1'', label = ''1'', slot = 0\<rparr>, \<lparr>piece_id = ''p2'', label = ''2'', slot = 1\<rparr>,
     \<lparr>piece_id = ''p3'', label = ''3'', slot = 2\<rparr>, \<lparr>piece_id = ''p4'', label = ''4'', slot = 3\<rparr>,
     \<lparr>piece_id = ''p5'', label = ''5'', slot = 4\<rparr>, \<lparr>piece_id = ''p6'', label = ''6'', slot = 5\<rparr>,
     \<lparr>piece_id = ''p7'', label = ''7'', slot = 6\<rparr>, \<lparr>piece_id = ''p8'', label = ''8'', slot = 7\<rparr>,
     \<lparr>piece_id = ''p9'', label = ''9'', slot = 8\<rparr>, \<lparr>piece_id = ''p10'', label = ''10'', slot = 9\<rparr>,
     \<lparr>piece_id = ''p11'', label = ''11'', slot = 10\<rparr>, \<lparr>piece_id = ''p12'', label = ''12'', slot = 11\<rparr>,
     \<lparr>piece_id = ''p13'', label = ''13'', slot = 12\<rparr>, \<lparr>piece_id = ''p14'', label = ''14'', slot = 13\<rparr>,
     \<lparr>piece_id = ''p15'', label = ''15'', slot = 14\<rparr>, \<lparr>piece_id = ''p16'', label = ''16'', slot = 15\<rparr>]"
  by code_simp

lemma length_pieces: "length pieces = 16"
  by (simp add: pieces_def)

lemma piece_ids:
  "map piece_id pieces =
     [''p1'', ''p2'', ''p3'', ''p4'', ''p5'', ''p6'', ''p7'', ''p8'', ''p9'', ''p10'', ''p11'',
      ''p12'', ''p13'', ''p14'', ''p15'', ''p16'']"
  by (simp add: pieces_eq)

lemma distinct_piece_ids: "distinct (map piece_id pieces)"
  unfolding piece_ids by simp

lemma foldl_update_map_of:
  "foldl (\<lambda>m kv. m(fst kv \<mapsto> snd kv)) m kvs = m ++ map_of (rev kvs)"
proof (induction kvs arbitrary: m)
  case Nil
  show ?case by simp
next
  case (Cons kv kvs)
  have "foldl (\<lambda>m kv. m(fst kv \<mapsto> snd kv)) m (kv # kvs) =
        foldl (\<lambda>m kv. m(fst kv \<mapsto> snd kv)) (m(fst kv \<mapsto> snd kv)) kvs"
    by (simp only: foldl_Cons)
  also have "\<dots> = m(fst kv \<mapsto> snd kv) ++ map_of (rev kvs)"
    by (rule Cons.IH)
  also have "\<dots> = m ++ map_of (rev (kv # kvs))"
    by (cases kv) (simp add: map_add_def fun_eq_iff split: option.splits)
  finally show ?case .
qed

lemma fromEntries_map_of: "fromEntries kvs = map_of (rev kvs)"
  by (simp add: fromEntries_def foldl_update_map_of)

lemma fromEntries_Some_iff:
  assumes "distinct (map fst kvs)"
  shows "fromEntries kvs k = Some v \<longleftrightarrow> (k, v) \<in> set kvs"
proof -
  have "distinct (map fst (rev kvs))"
    using assms by (simp add: rev_map [symmetric])
  then show ?thesis
    by (simp add: fromEntries_map_of)
qed

lemma dom_fromEntries: "dom (fromEntries kvs) = fst ` set kvs"
  by (simp add: fromEntries_map_of dom_map_of_conv_image_fst)

lemma piecesById_Some_iff:
  "piecesById pid = Some piece \<longleftrightarrow> piece \<in> set pieces \<and> piece_id piece = pid"
proof -
  have "distinct (map fst (map (\<lambda>piece. (piece_id piece, piece)) pieces))"
    using distinct_piece_ids by (simp add: comp_def)
  then show ?thesis
    unfolding piecesById_def by (auto simp: fromEntries_Some_iff)
qed

lemma piece_id_nonempty:
  assumes "piece \<in> set pieces"
  shows "piece_id piece \<noteq> []"
proof -
  have "piece_id piece \<in> set (map piece_id pieces)"
    using assms by simp
  then show ?thesis
    unfolding piece_ids by auto
qed

lemma piecesById_nonempty: "piecesById pid = Some piece \<Longrightarrow> pid \<noteq> []"
  using piece_id_nonempty by (auto simp: piecesById_Some_iff)

lemma piecesById_p7: "piecesById ''p7'' = Some \<lparr>piece_id = ''p7'', label = ''7'', slot = 6\<rparr>"
  unfolding piecesById_Some_iff by (simp add: pieces_eq)

lemma initialPlaced_iff:
  "initialPlaced pid = Some b \<longleftrightarrow> pid \<in> set (map piece_id pieces) \<and> \<not> b"
proof -
  have "distinct (map fst (map (\<lambda>piece. (piece_id piece, False)) pieces))"
    using distinct_piece_ids by (simp add: comp_def)
  then show ?thesis
    unfolding initialPlaced_def by (auto simp: fromEntries_Some_iff)
qed

lemma initialPlaced_p7: "initialPlaced ''p7'' = Some False"
  unfolding initialPlaced_iff by (simp add: piece_ids)

text \<open>
  C2. A drop of the piece id \<open>pid\<close> on the slot \<open>slotIndex\<close> sets the piece to placed
  if and only if \<open>pid\<close> names a known piece, the piece is not placed yet and
  \<open>slotIndex\<close> is the slot of the piece; in every other case the whole state is left
  as it was. In particular a drop of a piece that is placed already changes nothing,
  whatever the slot, so a second drop after a successful one has no further effect.
\<close>

theorem handleDrop_places_iff:
  "handleDrop placed pid slotIndex =
     (if (\<exists>piece. piecesById pid = Some piece \<and> slot piece = slotIndex) \<and>
         placed pid \<noteq> Some True
      then placed(pid \<mapsto> True) else placed) \<and>
   (placed pid = Some True \<longrightarrow> handleDrop placed pid slotIndex = placed) \<and>
   handleDrop (placed(pid \<mapsto> True)) pid slotIndex' = placed(pid \<mapsto> True)"
  using piecesById_nonempty [of pid]
  by (auto simp: handleDrop_def split: option.splits)

theorem handleDrop_places_iff_witness:
  "(\<exists>piece. piecesById ''p7'' = Some piece \<and> slot piece = 6) \<and>
   initialPlaced ''p7'' \<noteq> Some True \<and>
   handleDrop initialPlaced ''p7'' 6 = initialPlaced(''p7'' \<mapsto> True) \<and>
   handleDrop (initialPlaced(''p7'' \<mapsto> True)) ''p7'' 2 = initialPlaced(''p7'' \<mapsto> True)"
  using handleDrop_places_iff [of initialPlaced "''p7''" 6 2]
  by (simp add: piecesById_p7 initialPlaced_p7)

text \<open>
  C10. A drop of the piece id \<open>pid\<close> changes the placed flag of no other piece: for
  every other id the value after the drop is the value before. This holds for a
  successful drop and for a rejected one.
\<close>

theorem handleDrop_frame:
  "pid' \<noteq> pid \<Longrightarrow> handleDrop placed pid slotIndex pid' = placed pid'"
  by (simp add: handleDrop_def split: option.splits)

theorem handleDrop_frame_witness:
  "''p3'' \<noteq> ''p7'' \<and> handleDrop initialPlaced ''p7'' 6 ''p7'' = Some True \<and>
   handleDrop initialPlaced ''p7'' 6 ''p3'' = initialPlaced ''p3''"
  using handleDrop_frame [of "''p3''" "''p7''" initialPlaced 6]
  by (simp add: handleDrop_def piecesById_p7 initialPlaced_p7)

section \<open>Properties of the scatter\<close>

subsection \<open>The attempts of one piece\<close>

lemma attemptLoop_first_clear:
  assumes "attempt + j < maxAttempts"
    and "\<forall>i<j. \<not> clear fl w ps (candidate fl rnd w rect (k + 3 * i))"
    and "clear fl w ps (candidate fl rnd w rect (k + 3 * j))"
  shows "attemptLoop fl rnd w rect ps attempt k =
           (True, ps @ [candidate fl rnd w rect (k + 3 * j)], k + 3 * (j + 1))"
  using assms
proof (induction j arbitrary: attempt k)
  case 0
  then show ?case
    by (subst attemptLoop.simps) simp
next
  case (Suc j)
  have nclear: "\<not> clear fl w ps (candidate fl rnd w rect k)"
    using Suc.prems(2) by (auto dest: spec [of _ 0])
  have "attemptLoop fl rnd w rect ps (attempt + 1) (k + 3) =
          (True, ps @ [candidate fl rnd w rect (k + 3 + 3 * j)], k + 3 + 3 * (j + 1))"
  proof (rule Suc.IH)
    show "attempt + 1 + j < maxAttempts"
      using Suc.prems(1) by simp
    show "\<forall>i<j. \<not> clear fl w ps (candidate fl rnd w rect (k + 3 + 3 * i))"
    proof (intro allI impI)
      fix i assume "i < j"
      then have "Suc i < Suc j" by simp
      then have "\<not> clear fl w ps (candidate fl rnd w rect (k + 3 * Suc i))"
        using Suc.prems(2) by blast
      then show "\<not> clear fl w ps (candidate fl rnd w rect (k + 3 + 3 * i))"
        by (simp add: add.assoc)
    qed
    show "clear fl w ps (candidate fl rnd w rect (k + 3 + 3 * j))"
      using Suc.prems(3) by (simp add: add.assoc)
  qed
  moreover have "attempt < maxAttempts"
    using Suc.prems(1) by simp
  ultimately show ?case
    using nclear by (subst attemptLoop.simps) (simp add: add.assoc)
qed

lemma attemptLoop_none_clear:
  assumes "\<forall>j. attempt + j < maxAttempts \<longrightarrow> \<not> clear fl w ps (candidate fl rnd w rect (k + 3 * j))"
  shows "attemptLoop fl rnd w rect ps attempt k = (False, ps, k + 3 * (maxAttempts - attempt))"
  using assms
proof (induction "maxAttempts - attempt" arbitrary: attempt k)
  case 0
  then show ?case
    by (subst attemptLoop.simps) simp
next
  case (Suc n)
  have lt: "attempt < maxAttempts"
    using Suc.hyps(2) by simp
  have nclear: "\<not> clear fl w ps (candidate fl rnd w rect k)"
    using Suc.prems lt by (auto dest: spec [of _ 0])
  have "attemptLoop fl rnd w rect ps (attempt + 1) (k + 3) =
          (False, ps, k + 3 + 3 * (maxAttempts - (attempt + 1)))"
  proof (rule Suc.hyps(1))
    show "n = maxAttempts - (attempt + 1)"
      using Suc.hyps(2) by simp
    show "\<forall>j. attempt + 1 + j < maxAttempts \<longrightarrow>
            \<not> clear fl w ps (candidate fl rnd w rect (k + 3 + 3 * j))"
    proof (intro allI impI)
      fix j assume "attempt + 1 + j < maxAttempts"
      then have "attempt + Suc j < maxAttempts" by simp
      then have "\<not> clear fl w ps (candidate fl rnd w rect (k + 3 * Suc j))"
        using Suc.prems by blast
      then show "\<not> clear fl w ps (candidate fl rnd w rect (k + 3 + 3 * j))"
        by (simp add: add.assoc)
    qed
  qed
  moreover have "k + 3 + 3 * (maxAttempts - (attempt + 1)) = k + 3 * (maxAttempts - attempt)"
    using lt by simp
  ultimately show ?case
    using nclear lt by (subst attemptLoop.simps) simp
qed

lemma attemptLoop_placed_first:
  assumes "fst (attemptLoop fl rnd w rect ps attempt k)"
  shows "\<exists>j. attempt + j < maxAttempts \<and>
           (\<forall>i<j. \<not> clear fl w ps (candidate fl rnd w rect (k + 3 * i))) \<and>
           clear fl w ps (candidate fl rnd w rect (k + 3 * j))"
proof -
  let ?P = "\<lambda>j. attempt + j < maxAttempts \<and> clear fl w ps (candidate fl rnd w rect (k + 3 * j))"
  have "\<exists>j. ?P j"
  proof (rule ccontr)
    assume "\<not> (\<exists>j. ?P j)"
    then have "attemptLoop fl rnd w rect ps attempt k = (False, ps, k + 3 * (maxAttempts - attempt))"
      by (intro attemptLoop_none_clear) blast
    with assms show False by simp
  qed
  then obtain j where j: "?P j" and least: "\<forall>i<j. \<not> ?P i"
    by (auto simp: exists_least_iff [of ?P])
  have "\<forall>i<j. \<not> clear fl w ps (candidate fl rnd w rect (k + 3 * i))"
    using j least by auto
  with j show ?thesis by blast
qed

lemma placePiece_within:
  assumes "fst (attemptLoop fl rnd w rect ps 0 k)"
  shows "\<exists>j<maxAttempts.
           (\<forall>i<j. \<not> clear fl w ps (candidate fl rnd w rect (k + 3 * i))) \<and>
           clear fl w ps (candidate fl rnd w rect (k + 3 * j)) \<and>
           placePiece fl rnd w rect (ps, k) =
             (ps @ [candidate fl rnd w rect (k + 3 * j)], k + 3 * (j + 1))"
proof -
  obtain j where j: "0 + j < maxAttempts"
      "\<forall>i<j. \<not> clear fl w ps (candidate fl rnd w rect (k + 3 * i))"
      "clear fl w ps (candidate fl rnd w rect (k + 3 * j))"
    using attemptLoop_placed_first [OF assms] by auto
  have "attemptLoop fl rnd w rect ps 0 k =
          (True, ps @ [candidate fl rnd w rect (k + 3 * j)], k + 3 * (j + 1))"
    using j by (rule attemptLoop_first_clear)
  then have "placePiece fl rnd w rect (ps, k) =
          (ps @ [candidate fl rnd w rect (k + 3 * j)], k + 3 * (j + 1))"
    by (simp add: placePiece_def)
  with j show ?thesis by auto
qed

lemma placePiece_exhausted:
  assumes "\<forall>j<maxAttempts. \<not> clear fl w ps (candidate fl rnd w rect (k + 3 * j))"
  shows "placePiece fl rnd w rect (ps, k) =
           (ps @ [candidate fl rnd w rect (k + 3 * maxAttempts)], k + 3 * maxAttempts + 3)"
proof -
  have "attemptLoop fl rnd w rect ps 0 k = (False, ps, k + 3 * (maxAttempts - 0))"
    using assms by (intro attemptLoop_none_clear) simp
  then show ?thesis
    by (simp add: placePiece_def)
qed

lemma attemptLoop_some_clear:
  assumes "attempt + j < maxAttempts" and "clear fl w ps (candidate fl rnd w rect (k + 3 * j))"
  shows "fst (attemptLoop fl rnd w rect ps attempt k)"
  using assms
proof (induction j arbitrary: attempt k)
  case 0
  then show ?case
    by (subst attemptLoop.simps) simp
next
  case (Suc j)
  have "fst (attemptLoop fl rnd w rect ps (attempt + 1) (k + 3))"
    using Suc.prems by (intro Suc.IH) (simp_all add: add.assoc)
  moreover have "attempt < maxAttempts"
    using Suc.prems(1) by simp
  ultimately show ?case
    by (subst attemptLoop.simps) (simp add: Let_def)
qed

lemma length_placePiece: "length (fst (placePiece fl rnd w rect s)) = Suc (length (fst s))"
proof (cases "fst (attemptLoop fl rnd w rect (fst s) 0 (snd s))")
  case True
  then obtain j where
    "placePiece fl rnd w rect (fst s, snd s) =
       (fst s @ [candidate fl rnd w rect (snd s + 3 * j)], snd s + 3 * (j + 1))"
    using placePiece_within by blast
  then show ?thesis by simp
next
  case False
  have "\<forall>j<maxAttempts. \<not> clear fl w (fst s) (candidate fl rnd w rect (snd s + 3 * j))"
    using False attemptLoop_some_clear [where attempt = 0 and fl = fl and w = w and ps = "fst s" and rnd = rnd and rect = rect and k = "snd s"] by auto
  then have "placePiece fl rnd w rect (fst s, snd s) =
      (fst s @ [candidate fl rnd w rect (snd s + 3 * maxAttempts)], snd s + 3 * maxAttempts + 3)"
    by (rule placePiece_exhausted)
  then show ?thesis by simp
qed

lemma length_fold_placePiece:
  "length (fst (fold (\<lambda>piece. placePiece fl rnd w rect) xs s)) = length xs + length (fst s)"
  by (induction xs arbitrary: s) (simp_all add: length_placePiece)

lemma length_scatterPositions: "length (scatterPositions fl rnd w rect) = length pieces"
  by (simp add: scatterPositions_def length_fold_placePiece)

subsection \<open>The states of a run\<close>

lemma attemptLoop_accept:
  "attempt < maxAttempts \<Longrightarrow> clear fl w ps (candidate fl rnd w rect k) \<Longrightarrow>
   attemptLoop fl rnd w rect ps attempt k = (True, ps @ [candidate fl rnd w rect k], k + 3)"
  by (subst attemptLoop.simps) simp

lemma not_placed_iff:
  "(\<not> fst (attemptLoop fl rnd w rect ps 0 k)) =
     (\<forall>j<maxAttempts. \<not> clear fl w ps (candidate fl rnd w rect (k + 3 * j)))"
proof
  assume "\<not> fst (attemptLoop fl rnd w rect ps 0 k)"
  then show "\<forall>j<maxAttempts. \<not> clear fl w ps (candidate fl rnd w rect (k + 3 * j))"
    using attemptLoop_some_clear [where attempt = 0 and fl = fl and w = w and ps = ps
        and rnd = rnd and rect = rect and k = k]
    by auto
next
  assume "\<forall>j<maxAttempts. \<not> clear fl w ps (candidate fl rnd w rect (k + 3 * j))"
  then have "attemptLoop fl rnd w rect ps 0 k = (False, ps, k + 3 * (maxAttempts - 0))"
    by (intro attemptLoop_none_clear) simp
  then show "\<not> fst (attemptLoop fl rnd w rect ps 0 k)"
    by simp
qed

lemma stateAfter_0: "stateAfter fl rnd w rect 0 = ([], 0)"
  by (simp add: stateAfter_def)

lemma stateAfter_Suc:
  assumes "n < length pieces"
  shows "stateAfter fl rnd w rect (Suc n) = placePiece fl rnd w rect (stateAfter fl rnd w rect n)"
  using assms by (simp add: stateAfter_def take_Suc_conv_app_nth)

lemma stateAfter_all:
  "scatterPositions fl rnd w rect = fst (stateAfter fl rnd w rect (length pieces))"
  by (simp add: stateAfter_def scatterPositions_def)

lemma length_stateAfter:
  "n \<le> length pieces \<Longrightarrow> length (fst (stateAfter fl rnd w rect n)) = n"
  by (simp add: stateAfter_def length_fold_placePiece)

lemma placePiece_snoc: "\<exists>c. fst (placePiece fl rnd w rect s) = fst s @ [c]"
proof (cases "fst (attemptLoop fl rnd w rect (fst s) 0 (snd s))")
  case True
  then obtain j where
    "placePiece fl rnd w rect (fst s, snd s) =
       (fst s @ [candidate fl rnd w rect (snd s + 3 * j)], snd s + 3 * (j + 1))"
    using placePiece_within by blast
  then show ?thesis by simp
next
  case False
  then have "placePiece fl rnd w rect (fst s, snd s) =
      (fst s @ [candidate fl rnd w rect (snd s + 3 * maxAttempts)], snd s + 3 * maxAttempts + 3)"
    by (intro placePiece_exhausted) (simp add: not_placed_iff)
  then show ?thesis by simp
qed

lemma stateAfter_prefix:
  assumes "n \<le> m" and "m \<le> length pieces"
  shows "fst (stateAfter fl rnd w rect n) = take n (fst (stateAfter fl rnd w rect m))"
  using assms
proof (induction m)
  case 0
  then show ?case by (simp add: stateAfter_0)
next
  case (Suc m)
  have m: "m < length pieces"
    using Suc.prems(2) by simp
  obtain c where c: "fst (stateAfter fl rnd w rect (Suc m)) = fst (stateAfter fl rnd w rect m) @ [c]"
    using placePiece_snoc [of fl rnd w rect "stateAfter fl rnd w rect m"]
    by (auto simp: stateAfter_Suc [OF m])
  have len: "length (fst (stateAfter fl rnd w rect m)) = m"
    using m by (simp add: length_stateAfter)
  show ?case
  proof (cases "n = Suc m")
    case True
    have "length (fst (stateAfter fl rnd w rect (Suc m))) = Suc m"
      using Suc.prems(2) by (rule length_stateAfter)
    then show ?thesis
      using True by simp
  next
    case False
    then have "n \<le> m"
      using Suc.prems(1) by simp
    then have "fst (stateAfter fl rnd w rect n) = take n (fst (stateAfter fl rnd w rect m))"
      using m by (intro Suc.IH) simp_all
    then show ?thesis
      using \<open>n \<le> m\<close> len by (simp add: c)
  qed
qed

lemma stateAfter_take:
  "n \<le> length pieces \<Longrightarrow>
   fst (stateAfter fl rnd w rect n) = take n (scatterPositions fl rnd w rect)"
  by (simp add: stateAfter_all stateAfter_prefix)

lemma scatterPositions_nth:
  assumes "n < length pieces"
    and "placePiece fl rnd w rect (stateAfter fl rnd w rect n) = (ps @ [c], k)"
    and "length ps = n"
  shows "scatterPositions fl rnd w rect ! n = c"
proof -
  have "take (Suc n) (scatterPositions fl rnd w rect) = ps @ [c]"
    using assms(1,2) stateAfter_take [of "Suc n" fl rnd w rect] stateAfter_Suc [OF assms(1), of fl rnd w rect]
    by simp
  moreover have "(ps @ [c]) ! n = c"
    using assms(3) by (simp add: nth_append)
  ultimately have "take (Suc n) (scatterPositions fl rnd w rect) ! n = c"
    by simp
  then show ?thesis by simp
qed


lemma run_exhausted:
  assumes n: "n < length pieces" and none: "\<not> placedWithin fl rnd w rect n"
  shows "(\<forall>j<maxAttempts. \<not> clear fl w (take n (scatterPositions fl rnd w rect))
                      (candidate fl rnd w rect (snd (stateAfter fl rnd w rect n) + 3 * j))) \<and>
         scatterPositions fl rnd w rect ! n =
           candidate fl rnd w rect (snd (stateAfter fl rnd w rect n) + 3 * maxAttempts) \<and>
         snd (stateAfter fl rnd w rect (Suc n)) =
           snd (stateAfter fl rnd w rect n) + 3 * maxAttempts + 3"
proof -
  let ?s = "stateAfter fl rnd w rect n"
  have ps: "fst ?s = take n (scatterPositions fl rnd w rect)"
    using n by (simp add: stateAfter_take)
  have len: "length (fst ?s) = n"
    using n by (simp add: length_stateAfter)
  have rej: "\<forall>j<maxAttempts. \<not> clear fl w (fst ?s) (candidate fl rnd w rect (snd ?s + 3 * j))"
    using none by (simp add: placedWithin_def not_placed_iff)
  then have "placePiece fl rnd w rect (fst ?s, snd ?s) =
      (fst ?s @ [candidate fl rnd w rect (snd ?s + 3 * maxAttempts)], snd ?s + 3 * maxAttempts + 3)"
    by (rule placePiece_exhausted)
  then have p: "placePiece fl rnd w rect ?s =
      (fst ?s @ [candidate fl rnd w rect (snd ?s + 3 * maxAttempts)], snd ?s + 3 * maxAttempts + 3)"
    by simp
  have "scatterPositions fl rnd w rect ! n = candidate fl rnd w rect (snd ?s + 3 * maxAttempts)"
    using n p len by (rule scatterPositions_nth)
  moreover have "snd (stateAfter fl rnd w rect (Suc n)) = snd ?s + 3 * maxAttempts + 3"
    using p by (simp add: stateAfter_Suc [OF n])
  ultimately show ?thesis
    using rej unfolding ps by blast
qed




subsection \<open>The new scatter state\<close>

lemma map_fst_entries:
  "map fst (map (\<lambda>(piece, index). (piece_id piece, f index)) (zip xs [0..<length xs])) =
     map piece_id xs"
  by (rule nth_equalityI) simp_all

lemma generateScatter_Some:
  "generateScatter fl rnd w (Some rect) scatter =
     Inr (fromEntries
            (map (\<lambda>(piece, index).
                    (piece_id piece,
                     \<lparr>entry_start = (pos_x (scatterPositions fl rnd w rect ! index),
                                      pos_y (scatterPositions fl rnd w rect ! index)),
                      entry_tilt = pos_tilt (scatterPositions fl rnd w rect ! index)\<rparr>))
                 (zip pieces [0..<length pieces])))"
  by (simp add: generateScatter_def Let_def length_scatterPositions)

lemma generateScatter_entries:
  "\<exists>s. generateScatter fl rnd w (Some rect) scatter = Inr s \<and>
       dom s = set (map piece_id pieces) \<and> card (dom s) = 16 \<and>
       (\<forall>i<length pieces.
          s (piece_id (pieces ! i)) =
            Some \<lparr>entry_start = (pos_x (scatterPositions fl rnd w rect ! i),
                                 pos_y (scatterPositions fl rnd w rect ! i)),
                  entry_tilt = pos_tilt (scatterPositions fl rnd w rect ! i)\<rparr>)"
proof -
  let ?f = "\<lambda>index. \<lparr>entry_start = (pos_x (scatterPositions fl rnd w rect ! index),
                                      pos_y (scatterPositions fl rnd w rect ! index)),
                       entry_tilt = pos_tilt (scatterPositions fl rnd w rect ! index)\<rparr>"
  let ?kvs = "map (\<lambda>(piece, index). (piece_id piece, ?f index)) (zip pieces [0..<length pieces])"
  have keys: "map fst ?kvs = map piece_id pieces"
    by (rule map_fst_entries)
  have d: "dom (fromEntries ?kvs) = set (map piece_id pieces)"
    by (simp only: dom_fromEntries set_map [symmetric] keys)
  have "card (set (map piece_id pieces)) = length (map piece_id pieces)"
    using distinct_piece_ids by (rule distinct_card)
  then have c: "card (dom (fromEntries ?kvs)) = 16"
    using d by (simp add: length_pieces)
  have e: "\<forall>i<length pieces. fromEntries ?kvs (piece_id (pieces ! i)) = Some (?f i)"
  proof (intro allI impI)
    fix i assume i: "i < length pieces"
    have "distinct (map fst ?kvs)"
      unfolding keys by (rule distinct_piece_ids)
    moreover have "?kvs ! i = (piece_id (pieces ! i), ?f i)"
      using i by simp
    then have "(piece_id (pieces ! i), ?f i) \<in> set ?kvs"
      using i by (metis (no_types, lifting) length_map length_zip length_upt min.idem
          diff_zero nth_mem)
    ultimately show "fromEntries ?kvs (piece_id (pieces ! i)) = Some (?f i)"
      by (simp only: fromEntries_Some_iff)
  qed
  show ?thesis
  proof (intro exI conjI)
    show "generateScatter fl rnd w (Some rect) scatter = Inr (fromEntries ?kvs)"
      by (rule generateScatter_Some)
  qed (fact d c e)+
qed

subsection \<open>Arithmetic without rounding\<close>

lemma exact_ops:
  "fadd exact = (+)" "fsub exact = (-)" "fmul exact = (*)" "fdiv exact = (/)"
  "fhypot exact = hypot" "fle exact = (\<le>)" "fge exact = (\<ge>)" "num exact = (\<lambda>x. x)"
  by (simp_all add: exact_def)

lemmas scatter_eval =
  exact_ops candidate_def rand_def safeMinX_def safeMaxX_def safeMinY_def safeMaxY_def
  minX_def maxX_def minY_def maxY_def centerX_def centerY_def padding_def
  minDistance_def pieceVisualSize_def pieceSize_def svgScale_def tabRadius_def
  wideWindow_def wideStage_def tinyWindow_def tinyStage_def




lemma rand_between:
  assumes "0 \<le> rnd k" and "rnd k \<le> 1" and "lo \<le> hi"
  shows "lo \<le> rand exact rnd k lo hi \<and> rand exact rnd k lo hi \<le> hi"
proof -
  have "0 \<le> rnd k * (hi - lo)"
    using assms by simp
  moreover have "rnd k * (hi - lo) \<le> 1 * (hi - lo)"
    using assms by (intro mult_right_mono) simp_all
  ultimately show ?thesis
    by (simp add: rand_def exact_ops)
qed

lemma safe_order:
  "safeMinX exact w rect \<le> safeMaxX exact w rect"
  "safeMinY exact w rect \<le> safeMaxY exact w rect"
  by (simp_all add: safeMinX_def safeMaxX_def safeMinY_def safeMaxY_def exact_ops)


subsection \<open>The sample runs\<close>

lemma placePiece_first:
  assumes "clear fl w (fst s) (candidate fl rnd w rect (snd s))"
  shows "placePiece fl rnd w rect s = (fst s @ [candidate fl rnd w rect (snd s)], snd s + 3)"
proof -
  have "attemptLoop fl rnd w rect (fst s) 0 (snd s) =
          (True, fst s @ [candidate fl rnd w rect (snd s)], snd s + 3)"
    using assms by (intro attemptLoop_accept) (simp_all add: maxAttempts_def)
  then show ?thesis
    by (simp add: placePiece_def)
qed

lemma stateAfter_1:
  "stateAfter fl rnd w rect (Suc 0) = ([candidate fl rnd w rect 0], 3)"
proof -
  have "0 < length pieces"
    by (simp add: length_pieces)
  then have "stateAfter fl rnd w rect (Suc 0) = placePiece fl rnd w rect ([], 0)"
    by (simp add: stateAfter_Suc stateAfter_0)
  moreover have "placePiece fl rnd w rect ([], 0) = ([candidate fl rnd w rect 0], 3)"
    using placePiece_first [of fl w "([], 0)" rnd rect] by (simp add: clear_def)
  ultimately show ?thesis by simp
qed






lemma retry_first:
  "candidate exact retryStream wideWindow wideStage 0 =
     \<lparr>pos_x = - (47072 / 25), pos_y = - (9572 / 25), pos_tilt = - 14\<rparr>"
  by (simp add: scatter_eval retryStream_def)




lemma tiny_candidate:
  "candidate exact rampStream tinyWindow tinyStage k =
     \<lparr>pos_x = - 10, pos_y = 0, pos_tilt = - 14 + rampStream (k + 2) * 28\<rparr>"
  by (simp add: scatter_eval)

lemma tiny_not_clear:
  "\<not> clear exact tinyWindow [candidate exact rampStream tinyWindow tinyStage 0]
       (candidate exact rampStream tinyWindow tinyStage k)"
  by (simp add: clear_def tiny_candidate exact_ops hypot_def)
    (simp add: scatter_eval)

lemma tiny_not_placed: "\<not> placedWithin exact rampStream tinyWindow tinyStage 1"
  by (simp add: placedWithin_def stateAfter_1 not_placed_iff tiny_not_clear)

subsection \<open>The sampling range\<close>

text \<open>
  C9. For every window and stage rectangle the sampling interval of each axis is well
  defined: its lower end is not above its upper end. If the space left on an axis
  after the inset of \<open>padding + pieceVisualSize / 2\<close> on each side is not positive
  (\<open>maxX \<le> minX\<close>, which is the case exactly when the inner width of the window is at
  most twice the inset, and likewise for the height), both ends of the interval are
  the midpoint of the computed minimum and maximum. Every candidate sampled with
  random numbers between 0 and 1 lies in the interval, and a run with a stage element
  never fails. All this is stated for the arithmetic without rounding. For every
  arithmetic \<open>fl\<close>, whenever the test \<open>minX <= maxX\<close> of the source fails, both ends
  of the interval are the midpoint as the source computes it, whenever it succeeds
  they are the computed minimum and maximum, and a run with a stage element never
  fails.
\<close>

theorem scatter_range_collapse:
  "safeMinX exact w rect \<le> safeMaxX exact w rect \<and>
   safeMinY exact w rect \<le> safeMaxY exact w rect \<and>
   (maxX exact w rect \<le> minX exact w rect \<longrightarrow>
      safeMinX exact w rect = (minX exact w rect + maxX exact w rect) / 2 \<and>
      safeMaxX exact w rect = (minX exact w rect + maxX exact w rect) / 2) \<and>
   (maxY exact w rect \<le> minY exact w rect \<longrightarrow>
      safeMinY exact w rect = (minY exact w rect + maxY exact w rect) / 2 \<and>
      safeMaxY exact w rect = (minY exact w rect + maxY exact w rect) / 2) \<and>
   ((maxX exact w rect \<le> minX exact w rect) =
      (innerWidth w \<le> 2 * (padding exact + pieceVisualSize exact w / 2))) \<and>
   ((maxY exact w rect \<le> minY exact w rect) =
      (innerHeight w \<le> 2 * (padding exact + pieceVisualSize exact w / 2))) \<and>
   (0 \<le> rnd k \<and> rnd k \<le> 1 \<and> 0 \<le> rnd (k + 1) \<and> rnd (k + 1) \<le> 1 \<longrightarrow>
      safeMinX exact w rect \<le> pos_x (candidate exact rnd w rect k) \<and>
      pos_x (candidate exact rnd w rect k) \<le> safeMaxX exact w rect \<and>
      safeMinY exact w rect \<le> pos_y (candidate exact rnd w rect k) \<and>
      pos_y (candidate exact rnd w rect k) \<le> safeMaxY exact w rect) \<and>
   (\<exists>s. generateScatter exact rnd w (Some rect) scatter = Inr s) \<and>
   (\<not> fle fl (minX fl v r) (maxX fl v r) \<longrightarrow>
      safeMinX fl v r = fdiv fl (fadd fl (minX fl v r) (maxX fl v r)) (num fl 2) \<and>
      safeMaxX fl v r = fdiv fl (fadd fl (minX fl v r) (maxX fl v r)) (num fl 2)) \<and>
   (\<not> fle fl (minY fl v r) (maxY fl v r) \<longrightarrow>
      safeMinY fl v r = fdiv fl (fadd fl (minY fl v r) (maxY fl v r)) (num fl 2) \<and>
      safeMaxY fl v r = fdiv fl (fadd fl (minY fl v r) (maxY fl v r)) (num fl 2)) \<and>
   (fle fl (minX fl v r) (maxX fl v r) \<longrightarrow>
      safeMinX fl v r = minX fl v r \<and> safeMaxX fl v r = maxX fl v r) \<and>
   (fle fl (minY fl v r) (maxY fl v r) \<longrightarrow>
      safeMinY fl v r = minY fl v r \<and> safeMaxY fl v r = maxY fl v r) \<and>
   (\<exists>s. generateScatter fl rs v (Some r) sc = Inr s)"
proof -
  have a: "maxX exact w rect \<le> minX exact w rect \<longrightarrow>
      safeMinX exact w rect = (minX exact w rect + maxX exact w rect) / 2 \<and>
      safeMaxX exact w rect = (minX exact w rect + maxX exact w rect) / 2"
    by (auto simp: safeMinX_def safeMaxX_def exact_ops)
  have b: "maxY exact w rect \<le> minY exact w rect \<longrightarrow>
      safeMinY exact w rect = (minY exact w rect + maxY exact w rect) / 2 \<and>
      safeMaxY exact w rect = (minY exact w rect + maxY exact w rect) / 2"
    by (auto simp: safeMinY_def safeMaxY_def exact_ops)
  have c: "(maxX exact w rect \<le> minX exact w rect) =
      (innerWidth w \<le> 2 * (padding exact + pieceVisualSize exact w / 2))"
    by (auto simp: minX_def maxX_def exact_ops)
  have d: "(maxY exact w rect \<le> minY exact w rect) =
      (innerHeight w \<le> 2 * (padding exact + pieceVisualSize exact w / 2))"
    by (auto simp: minY_def maxY_def exact_ops)
  have e: "0 \<le> rnd k \<and> rnd k \<le> 1 \<and> 0 \<le> rnd (k + 1) \<and> rnd (k + 1) \<le> 1 \<longrightarrow>
      safeMinX exact w rect \<le> pos_x (candidate exact rnd w rect k) \<and>
      pos_x (candidate exact rnd w rect k) \<le> safeMaxX exact w rect \<and>
      safeMinY exact w rect \<le> pos_y (candidate exact rnd w rect k) \<and>
      pos_y (candidate exact rnd w rect k) \<le> safeMaxY exact w rect"
    using rand_between [of rnd k "safeMinX exact w rect" "safeMaxX exact w rect"]
      rand_between [of rnd "k + 1" "safeMinY exact w rect" "safeMaxY exact w rect"]
      safe_order [of w rect]
    by (simp add: candidate_def)
  have f: "\<exists>s. generateScatter exact rnd w (Some rect) scatter = Inr s"
    by (simp add: generateScatter_Some)
  have g: "\<not> fle fl (minX fl v r) (maxX fl v r) \<longrightarrow>
      safeMinX fl v r = fdiv fl (fadd fl (minX fl v r) (maxX fl v r)) (num fl 2) \<and>
      safeMaxX fl v r = fdiv fl (fadd fl (minX fl v r) (maxX fl v r)) (num fl 2)"
    by (simp add: safeMinX_def safeMaxX_def)
  have h: "\<not> fle fl (minY fl v r) (maxY fl v r) \<longrightarrow>
      safeMinY fl v r = fdiv fl (fadd fl (minY fl v r) (maxY fl v r)) (num fl 2) \<and>
      safeMaxY fl v r = fdiv fl (fadd fl (minY fl v r) (maxY fl v r)) (num fl 2)"
    by (simp add: safeMinY_def safeMaxY_def)
  have i: "fle fl (minX fl v r) (maxX fl v r) \<longrightarrow>
      safeMinX fl v r = minX fl v r \<and> safeMaxX fl v r = maxX fl v r"
    by (simp add: safeMinX_def safeMaxX_def)
  have j: "fle fl (minY fl v r) (maxY fl v r) \<longrightarrow>
      safeMinY fl v r = minY fl v r \<and> safeMaxY fl v r = maxY fl v r"
    by (simp add: safeMinY_def safeMaxY_def)
  have l: "\<exists>s. generateScatter fl rs v (Some r) sc = Inr s"
    by (simp add: generateScatter_Some)
  show ?thesis
    using safe_order [of w rect] a b c d e f g h i j l by blast
qed

theorem scatter_range_collapse_witness:
  "maxX exact \<lparr>innerWidth = 100, innerHeight = 100\<rparr>
        \<lparr>rect_left = 10, rect_top = 0, rect_width = 100, rect_height = 100\<rparr>
     \<le> minX exact \<lparr>innerWidth = 100, innerHeight = 100\<rparr>
            \<lparr>rect_left = 10, rect_top = 0, rect_width = 100, rect_height = 100\<rparr> \<and>
   safeMinX exact \<lparr>innerWidth = 100, innerHeight = 100\<rparr>
            \<lparr>rect_left = 10, rect_top = 0, rect_width = 100, rect_height = 100\<rparr> = - 10 \<and>
   safeMaxX exact \<lparr>innerWidth = 100, innerHeight = 100\<rparr>
            \<lparr>rect_left = 10, rect_top = 0, rect_width = 100, rect_height = 100\<rparr> = - 10 \<and>
   pos_x (candidate exact (\<lambda>k. 1 / 2) \<lparr>innerWidth = 100, innerHeight = 100\<rparr>
            \<lparr>rect_left = 10, rect_top = 0, rect_width = 100, rect_height = 100\<rparr> 0) = - 10 \<and>
   (\<exists>s. generateScatter exact (\<lambda>k. 1 / 2) \<lparr>innerWidth = 100, innerHeight = 100\<rparr>
          (Some \<lparr>rect_left = 10, rect_top = 0, rect_width = 100, rect_height = 100\<rparr>)
          (initialScatter exact) = Inr s)"
proof -
  let ?W = "\<lparr>innerWidth = 100, innerHeight = 100\<rparr> :: real Window"
  let ?T = "\<lparr>rect_left = 10, rect_top = 0, rect_width = 100, rect_height = 100\<rparr> :: real Rect"
  have small: "maxX exact ?W ?T \<le> minX exact ?W ?T"
    by (simp add: scatter_eval)
  have mid: "(minX exact ?W ?T + maxX exact ?W ?T) / 2 = - 10"
    by (simp add: scatter_eval)
  have rnd: "0 \<le> (1 / 2 :: real) \<and> (1 / 2 :: real) \<le> 1 \<and> 0 \<le> (1 / 2 :: real) \<and> (1 / 2 :: real) \<le> 1"
    by simp
  show ?thesis
    using scatter_range_collapse [where w = ?W and rect = ?T and rnd = "\<lambda>k. 1 / 2" and k = 0
        and scatter = "initialScatter exact" and fl = exact and v = ?W and r = ?T
        and rs = "\<lambda>k. 1 / 2" and sc = "initialScatter exact"]
      small mid rnd
    by auto
qed

subsection \<open>Accepted positions\<close>



text \<open>
  C8, as the specification states it, says that a piece whose 600 attempts are all
  rejected gets the last candidate sampled within the budget. In the run below all
  candidates lie on one point, so the second piece (index 1) is rejected 600 times;
  three random numbers were used before it, and the candidate of its last attempt is
  the one sampled at counter \<open>3 + 3 * 599\<close>. The position the run gives the piece is
  another one. The run is evaluated without rounding; with rounding both sampling
  intervals are single points as well (the difference of a number and itself is 0),
  every candidate has the same \<open>x\<close> and \<open>y\<close>, and the same attempts are rejected.
\<close>

theorem scatter_last_attempt_counterexample:
  "snd (stateAfter exact rampStream tinyWindow tinyStage 1) = 3 \<and>
   \<not> placedWithin exact rampStream tinyWindow tinyStage 1 \<and>
   scatterPositions exact rampStream tinyWindow tinyStage ! 1 =
     \<lparr>pos_x = - 10, pos_y = 0, pos_tilt = - 14 + 1805 / 30000 * 28\<rparr> \<and>
   candidate exact rampStream tinyWindow tinyStage (3 + 3 * 599) =
     \<lparr>pos_x = - 10, pos_y = 0, pos_tilt = - 14 + 1802 / 30000 * 28\<rparr> \<and>
   scatterPositions exact rampStream tinyWindow tinyStage ! 1 \<noteq>
     candidate exact rampStream tinyWindow tinyStage (3 + 3 * 599)"
proof -
  have one: "(1::nat) < length pieces"
    by (simp add: length_pieces)
  have used: "snd (stateAfter exact rampStream tinyWindow tinyStage 1) = 3"
    by (simp add: stateAfter_1)
  have "scatterPositions exact rampStream tinyWindow tinyStage ! 1 =
      candidate exact rampStream tinyWindow tinyStage (3 + 3 * maxAttempts)"
    using run_exhausted [OF one tiny_not_placed] used by simp
  then have pushed: "scatterPositions exact rampStream tinyWindow tinyStage ! 1 =
      \<lparr>pos_x = - 10, pos_y = 0, pos_tilt = - 14 + 1805 / 30000 * 28\<rparr>"
    by (simp add: tiny_candidate maxAttempts_def rampStream_def)
  have last: "candidate exact rampStream tinyWindow tinyStage (3 + 3 * 599) =
      \<lparr>pos_x = - 10, pos_y = 0, pos_tilt = - 14 + 1802 / 30000 * 28\<rparr>"
    by (simp add: tiny_candidate rampStream_def)
  show ?thesis
    using used tiny_not_placed pushed last by simp
qed

text \<open>
  C8, amended. For every run and every arithmetic: if none of the \<open>maxAttempts = 600\<close>
  candidates sampled in the attempts of a piece is clear, which is the case exactly
  when the attempts end without the flag \<open>placed\<close>, the position of the piece in the
  run is one more candidate, sampled after the 600 rejected ones and pushed without
  any test. A run therefore never fails and always has one position for each piece:
  the positions are as many as the pieces, 16, and the new scatter state has an entry
  for the id of each piece, made of the position with the index of the piece.
  Without a stage element the run leaves the scatter state as it was.
\<close>

theorem scatter_exhausted_fresh:
  "length (scatterPositions fl rnd w rect) = length pieces \<and> length pieces = 16 \<and>
   maxAttempts = 600 \<and>
   stateAfter fl rnd w rect 0 = ([], 0) \<and>
   (\<forall>n<length pieces.
      stateAfter fl rnd w rect (Suc n) =
        placePiece fl rnd w rect (stateAfter fl rnd w rect n) \<and>
      fst (stateAfter fl rnd w rect n) = take n (scatterPositions fl rnd w rect)) \<and>
   (\<forall>n<length pieces.
      (\<not> placedWithin fl rnd w rect n) =
        (\<forall>j<maxAttempts.
           \<not> clear fl w (take n (scatterPositions fl rnd w rect))
               (candidate fl rnd w rect (snd (stateAfter fl rnd w rect n) + 3 * j)))) \<and>
   (\<forall>n<length pieces. \<not> placedWithin fl rnd w rect n \<longrightarrow>
      scatterPositions fl rnd w rect ! n =
        candidate fl rnd w rect (snd (stateAfter fl rnd w rect n) + 3 * maxAttempts) \<and>
      snd (stateAfter fl rnd w rect (Suc n)) =
        snd (stateAfter fl rnd w rect n) + 3 * maxAttempts + 3) \<and>
   (\<exists>s. generateScatter fl rnd w (Some rect) scatter = Inr s \<and>
        dom s = set (map piece_id pieces) \<and> card (dom s) = 16 \<and>
        (\<forall>i<length pieces.
           s (piece_id (pieces ! i)) =
             Some \<lparr>entry_start = (pos_x (scatterPositions fl rnd w rect ! i),
                                  pos_y (scatterPositions fl rnd w rect ! i)),
                   entry_tilt = pos_tilt (scatterPositions fl rnd w rect ! i)\<rparr>)) \<and>
   generateScatter fl rnd w None scatter = Inr scatter"
proof (intro conjI allI impI)
  show "length (scatterPositions fl rnd w rect) = length pieces"
    by (rule length_scatterPositions)
  show "length pieces = 16"
    by (rule length_pieces)
  show "maxAttempts = 600"
    by (rule maxAttempts_def)
  show "stateAfter fl rnd w rect 0 = ([], 0)"
    by (rule stateAfter_0)
  show "\<exists>s. generateScatter fl rnd w (Some rect) scatter = Inr s \<and>
        dom s = set (map piece_id pieces) \<and> card (dom s) = 16 \<and>
        (\<forall>i<length pieces.
           s (piece_id (pieces ! i)) =
             Some \<lparr>entry_start = (pos_x (scatterPositions fl rnd w rect ! i),
                                  pos_y (scatterPositions fl rnd w rect ! i)),
                   entry_tilt = pos_tilt (scatterPositions fl rnd w rect ! i)\<rparr>)"
    by (rule generateScatter_entries)
  show "generateScatter fl rnd w None scatter = Inr scatter"
    by (simp add: generateScatter_def)
next
  fix n assume "n < length pieces"
  then show "stateAfter fl rnd w rect (Suc n) =
      placePiece fl rnd w rect (stateAfter fl rnd w rect n)"
    and "fst (stateAfter fl rnd w rect n) = take n (scatterPositions fl rnd w rect)"
    by (simp_all add: stateAfter_Suc stateAfter_take)
next
  fix n assume n: "n < length pieces"
  have "fst (stateAfter fl rnd w rect n) = take n (scatterPositions fl rnd w rect)"
    using n by (simp add: stateAfter_take)
  then show "(\<not> placedWithin fl rnd w rect n) =
        (\<forall>j<maxAttempts.
           \<not> clear fl w (take n (scatterPositions fl rnd w rect))
               (candidate fl rnd w rect (snd (stateAfter fl rnd w rect n) + 3 * j)))"
    using not_placed_iff [of fl rnd w rect "fst (stateAfter fl rnd w rect n)"
        "snd (stateAfter fl rnd w rect n)"]
    by (simp add: placedWithin_def)
next
  fix n assume "n < length pieces" and "\<not> placedWithin fl rnd w rect n"
  then show "scatterPositions fl rnd w rect ! n =
        candidate fl rnd w rect (snd (stateAfter fl rnd w rect n) + 3 * maxAttempts)"
    and "snd (stateAfter fl rnd w rect (Suc n)) =
        snd (stateAfter fl rnd w rect n) + 3 * maxAttempts + 3"
    using run_exhausted [of n fl rnd w rect] by simp_all
qed

theorem scatter_exhausted_fresh_witness:
  "\<not> placedWithin exact rampStream tinyWindow tinyStage 1 \<and>
   scatterPositions exact rampStream tinyWindow tinyStage ! 1 =
     candidate exact rampStream tinyWindow tinyStage 1803 \<and>
   snd (stateAfter exact rampStream tinyWindow tinyStage 2) = 1806 \<and>
   length (scatterPositions exact rampStream tinyWindow tinyStage) = 16"
proof -
  note run = scatter_exhausted_fresh [where fl = exact and rnd = rampStream
      and w = tinyWindow and rect = tinyStage]
  have one: "(1::nat) < length pieces"
    by (simp add: length_pieces)
  have used: "snd (stateAfter exact rampStream tinyWindow tinyStage 1) = 3"
    by (simp add: stateAfter_1)
  have "scatterPositions exact rampStream tinyWindow tinyStage ! 1 =
      candidate exact rampStream tinyWindow tinyStage
        (snd (stateAfter exact rampStream tinyWindow tinyStage 1) + 3 * maxAttempts)"
    and "snd (stateAfter exact rampStream tinyWindow tinyStage (Suc 1)) =
      snd (stateAfter exact rampStream tinyWindow tinyStage 1) + 3 * maxAttempts + 3"
    using run one tiny_not_placed by blast+
  then have "scatterPositions exact rampStream tinyWindow tinyStage ! 1 =
      candidate exact rampStream tinyWindow tinyStage 1803"
    and "snd (stateAfter exact rampStream tinyWindow tinyStage 2) = 1806"
    unfolding used by (simp_all add: maxAttempts_def numeral_2_eq_2)
  moreover have "length (scatterPositions exact rampStream tinyWindow tinyStage) = 16"
    using run by simp
  ultimately show ?thesis
    using tiny_not_placed by simp
qed

end
